theory Spec2Isabelle
  imports Complex_Main
begin

section \<open>Binance Futures order bot: a shallow embedding\<close>

text \<open>
  The theory embeds the order builders of \<^verbatim>\<open>src/basic_bot.py\<close>,
  \<^verbatim>\<open>src/market_orders.py\<close>, \<^verbatim>\<open>src/limit_orders.py\<close> and
  \<^verbatim>\<open>src/advanced/{stop_limit,oco,twap,grid}.py\<close>.

  Modelling decisions:
  \<^item> Python \<^verbatim>\<open>float\<close> values are exact rationals (\<^typ>\<open>rat\<close>): arithmetic does not round
    and there is no infinity or NaN. Python \<^verbatim>\<open>int\<close> is \<^typ>\<open>int\<close>. What is kept of the
    floating-point format is the one exception its arithmetic raises in these functions:
    \<^verbatim>\<open>OverflowError\<close>, when a division has an integer operand or an integer quotient too
    large for a double.
  \<^item> Strings are ASCII byte strings.
  \<^item> The vendor client is an environment \<open>env\<close>: each remote method is a function of the
    number of effects performed so far (a clock) and of the request, returning either an
    exception (\<open>Inl\<close>) or a response (\<open>Inr\<close>). Every remote call and every
    \<^verbatim>\<open>time.sleep\<close> is appended to a trace of events that the builders thread through.
  \<^item> A builder returns \<open>Inl e\<close> when the exception \<open>e\<close> leaves the Python function, and
    \<open>Inr r\<close> when it returns \<open>r\<close>; Python's \<^verbatim>\<open>None\<close> is \<open>None\<close>.
  \<^item> Logging is not modelled. Exceptions are the subclasses of \<^verbatim>\<open>Exception\<close>.
\<close>

subsection \<open>Data\<close>

datatype exn = BinanceAPIException int | BinanceOrderException | OverflowError | OtherException

text \<open>An entry of \<^verbatim>\<open>exchange_info['symbols']\<close>; the precisions are read with \<^verbatim>\<open>.get(key, 8)\<close>.\<close>

record symbol_info =
  si_symbol :: string
  quantityPrecision :: "nat option"
  pricePrecision :: "nat option"

text \<open>The keyword arguments of \<^verbatim>\<open>client.futures_create_order\<close>; an absent keyword is \<open>None\<close>.\<close>

record order_request =
  o_symbol :: string
  o_side :: string
  o_type :: string
  o_quantity :: rat
  o_price :: "rat option"
  o_stopPrice :: "rat option"
  o_timeInForce :: "string option"
  o_reduceOnly :: "bool option"

text \<open>The response mapping of the exchange, opaque but for its \<^verbatim>\<open>orderId\<close> key.\<close>

record order_response =
  orderId :: "nat option"
  payload :: string

datatype event =
    ClientNew
  | GetServerTime
  | FuturesAccount
  | FuturesExchangeInfo
  | FuturesSymbolTicker string
  | FuturesCreateOrder order_request
  | FuturesCancelOrder string nat
  | Sleep rat

record env =
  client_new :: "nat \<Rightarrow> exn + unit"
  futures_account :: "nat \<Rightarrow> exn + string"
  futures_exchange_info :: "nat \<Rightarrow> exn + symbol_info list"
  futures_symbol_ticker :: "nat \<Rightarrow> string \<Rightarrow> exn + rat"
  futures_create_order :: "nat \<Rightarrow> order_request \<Rightarrow> exn + order_response"
  futures_cancel_order :: "nat \<Rightarrow> string \<Rightarrow> nat \<Rightarrow> exn + unit"
  time_sleep :: "nat \<Rightarrow> rat \<Rightarrow> exn + unit"

type_synonym trace = "event list"

subsection \<open>Strings\<close>

definition is_lower :: "char \<Rightarrow> bool" where
  "is_lower c = (97 \<le> (of_char c :: nat) \<and> (of_char c :: nat) \<le> 122)"

definition is_upper :: "char \<Rightarrow> bool" where
  "is_upper c = (65 \<le> (of_char c :: nat) \<and> (of_char c :: nat) \<le> 90)"

definition upper_char :: "char \<Rightarrow> char" where
  "upper_char c = (if is_lower c then char_of ((of_char c :: nat) - 32) else c)"

text \<open>\<^verbatim>\<open>str.upper\<close>.\<close>

definition upper :: "string \<Rightarrow> string" where
  "upper s = map upper_char s"

text \<open>\<^verbatim>\<open>str.isupper\<close>: some cased character, and no lower-case one.\<close>

definition isupper :: "string \<Rightarrow> bool" where
  "isupper s = (list_ex is_upper s \<and> list_all (\<lambda>c. \<not> is_lower c) s)"

text \<open>\<^verbatim>\<open>sub in s\<close>.\<close>

definition contains :: "string \<Rightarrow> string \<Rightarrow> bool" where
  "contains sub s = list_ex (\<lambda>i. take (length sub) (drop i s) = sub) [0..<Suc (length s)]"

subsection \<open>Validators and precision formatter (basic\_bot.py)\<close>

definition validate_symbol :: "string \<Rightarrow> bool" where
  "validate_symbol symbol =
     (if symbol = [] then False else isupper symbol \<and> contains ''USDT'' symbol)"

definition validate_quantity :: "rat \<Rightarrow> bool" where
  "validate_quantity quantity = (quantity > 0)"

definition validate_price :: "rat \<Rightarrow> bool" where
  "validate_price price = (price > 0)"

text \<open>The membership test \<^verbatim>\<open>side.upper() not in ['BUY', 'SELL']\<close> of the builders.\<close>

definition side_ok :: "string \<Rightarrow> bool" where
  "side_ok side = (upper side = ''BUY'' \<or> upper side = ''SELL'')"

text \<open>
  \<^verbatim>\<open>get_symbol_info\<close>: one metadata fetch; the first entry with the symbol, \<open>None\<close> when
  there is none or when the fetch raises (the exception is caught inside).
\<close>

definition get_symbol_info :: "env \<Rightarrow> string \<Rightarrow> trace \<Rightarrow> symbol_info option \<times> trace" where
  "get_symbol_info e symbol tr =
     (case futures_exchange_info e (length tr) of
        Inl ex \<Rightarrow> (None, tr @ [FuturesExchangeInfo])
      | Inr syms \<Rightarrow> (find (\<lambda>s. si_symbol s = symbol) syms, tr @ [FuturesExchangeInfo]))"

text \<open>Rounding half to even, as \<^verbatim>\<open>round(x, ndigits)\<close> does.\<close>

definition round_half_even :: "rat \<Rightarrow> int" where
  "round_half_even x =
     (let f = \<lfloor>x\<rfloor>; d = x - of_int f
      in if d < 1 / 2 then f else if 1 / 2 < d then f + 1 else if even f then f else f + 1)"

definition py_round :: "rat \<Rightarrow> nat \<Rightarrow> rat" where
  "py_round x ndigits = of_int (round_half_even (x * 10 ^ ndigits)) / 10 ^ ndigits"

text \<open>
  \<^verbatim>\<open>x / n\<close> with a float \<open>x\<close> converts the integer \<open>n\<close> to a double, and \<^verbatim>\<open>a / b\<close> on two
  integers rounds the quotient to a double; both raise \<^verbatim>\<open>OverflowError\<close> from
  \<open>2^1024 - 2^970\<close> on, the least magnitude that no longer rounds to a finite double.
\<close>

definition float_overflows :: "rat \<Rightarrow> bool" where
  "float_overflows x = (2 ^ 1024 - 2 ^ 970 \<le> \<bar>x\<bar>)"

definition format_quantity :: "env \<Rightarrow> string \<Rightarrow> rat \<Rightarrow> trace \<Rightarrow> rat option \<times> trace" where
  "format_quantity e symbol quantity tr =
     (case get_symbol_info e symbol tr of
        (None, tr') \<Rightarrow> (None, tr')
      | (Some si, tr') \<Rightarrow>
          (Some (py_round quantity (case quantityPrecision si of None \<Rightarrow> 8 | Some p \<Rightarrow> p)), tr'))"

definition format_price :: "env \<Rightarrow> string \<Rightarrow> rat \<Rightarrow> trace \<Rightarrow> rat option \<times> trace" where
  "format_price e symbol price tr =
     (case get_symbol_info e symbol tr of
        (None, tr') \<Rightarrow> (None, tr')
      | (Some si, tr') \<Rightarrow>
          (Some (py_round price (case pricePrecision si of None \<Rightarrow> 8 | Some p \<Rightarrow> p)), tr'))"

text \<open>One remote call: the response is read at the current clock, the event is recorded.\<close>

definition call_create_order :: "env \<Rightarrow> order_request \<Rightarrow> trace \<Rightarrow> (exn + order_response) \<times> trace" where
  "call_create_order e req tr = (futures_create_order e (length tr) req, tr @ [FuturesCreateOrder req])"

definition call_symbol_ticker :: "env \<Rightarrow> string \<Rightarrow> trace \<Rightarrow> (exn + rat) \<times> trace" where
  "call_symbol_ticker e symbol tr = (futures_symbol_ticker e (length tr) symbol, tr @ [FuturesSymbolTicker symbol])"

definition call_sleep :: "env \<Rightarrow> rat \<Rightarrow> trace \<Rightarrow> (exn + unit) \<times> trace" where
  "call_sleep e seconds tr = (time_sleep e (length tr) seconds, tr @ [Sleep seconds])"

definition call_cancel_order :: "env \<Rightarrow> string \<Rightarrow> nat \<Rightarrow> trace \<Rightarrow> (exn + unit) \<times> trace" where
  "call_cancel_order e symbol oid tr = (futures_cancel_order e (length tr) symbol oid, tr @ [FuturesCancelOrder symbol oid])"

subsection \<open>Grid price ladder (grid.py, lines 60-62)\<close>

definition grid_prices :: "rat \<Rightarrow> rat \<Rightarrow> int \<Rightarrow> rat list" where
  "grid_prices lower_price upper_price grid_levels =
     (let price_step = (upper_price - lower_price) / of_int grid_levels
      in map (\<lambda>i. lower_price + of_nat i * price_step) [0..<nat (grid_levels + 1)])"

subsection \<open>Market, limit and stop-limit builders\<close>

text \<open>
  Each builder has three handlers (\<^verbatim>\<open>BinanceAPIException\<close>, \<^verbatim>\<open>BinanceOrderException\<close>,
  \<^verbatim>\<open>Exception\<close>, the last catching every other exception) around its remote call, all
  three returning \<^verbatim>\<open>None\<close>.
\<close>

definition place_market_order ::
  "env \<Rightarrow> string \<Rightarrow> string \<Rightarrow> rat \<Rightarrow> bool \<Rightarrow> trace \<Rightarrow> (exn + order_response option) \<times> trace" where
  "place_market_order e symbol side quantity reduce_only tr =
     (if \<not> validate_symbol symbol then (Inr None, tr)
      else if \<not> side_ok side then (Inr None, tr)
      else if \<not> validate_quantity quantity then (Inr None, tr)
      else case format_quantity e symbol quantity tr of
        (None, tr1) \<Rightarrow> (Inr None, tr1)
      | (Some formatted_quantity, tr1) \<Rightarrow>
          (case call_create_order e
                  \<lparr>o_symbol = symbol, o_side = upper side, o_type = ''MARKET'',
                   o_quantity = formatted_quantity, o_price = None, o_stopPrice = None,
                   o_timeInForce = None, o_reduceOnly = Some reduce_only\<rparr> tr1 of
             (Inr order, tr2) \<Rightarrow> (Inr (Some order), tr2)
           | (Inl ex, tr2) \<Rightarrow>
               (case ex of
                  BinanceAPIException c \<Rightarrow> (Inr None, tr2)
                | BinanceOrderException \<Rightarrow> (Inr None, tr2)
                | _ \<Rightarrow> (Inr None, tr2))))"

definition place_limit_order ::
  "env \<Rightarrow> string \<Rightarrow> string \<Rightarrow> rat \<Rightarrow> rat \<Rightarrow> string \<Rightarrow> bool \<Rightarrow> trace
     \<Rightarrow> (exn + order_response option) \<times> trace" where
  "place_limit_order e symbol side quantity price time_in_force reduce_only tr =
     (if \<not> validate_symbol symbol then (Inr None, tr)
      else if \<not> side_ok side then (Inr None, tr)
      else if \<not> validate_quantity quantity then (Inr None, tr)
      else if \<not> validate_price price then (Inr None, tr)
      else if time_in_force \<notin> {''GTC'', ''IOC'', ''FOK''} then (Inr None, tr)
      else case format_quantity e symbol quantity tr of (formatted_quantity, tr1) \<Rightarrow>
           case format_price e symbol price tr1 of (formatted_price, tr2) \<Rightarrow>
        if formatted_quantity = None \<or> formatted_price = None then (Inr None, tr2)
        else
          (case call_create_order e
                  \<lparr>o_symbol = symbol, o_side = upper side, o_type = ''LIMIT'',
                   o_quantity = the formatted_quantity, o_price = formatted_price,
                   o_stopPrice = None, o_timeInForce = Some time_in_force,
                   o_reduceOnly = Some reduce_only\<rparr> tr2 of
             (Inr order, tr3) \<Rightarrow> (Inr (Some order), tr3)
           | (Inl ex, tr3) \<Rightarrow>
               (case ex of
                  BinanceAPIException c \<Rightarrow> (Inr None, tr3)
                | BinanceOrderException \<Rightarrow> (Inr None, tr3)
                | _ \<Rightarrow> (Inr None, tr3))))"

definition place_stop_limit_order ::
  "env \<Rightarrow> string \<Rightarrow> string \<Rightarrow> rat \<Rightarrow> rat \<Rightarrow> rat \<Rightarrow> bool \<Rightarrow> trace
     \<Rightarrow> (exn + order_response option) \<times> trace" where
  "place_stop_limit_order e symbol side quantity stop_price limit_price reduce_only tr =
     (if \<not> validate_symbol symbol then (Inr None, tr)
      else if \<not> side_ok side then (Inr None, tr)
      else if \<not> validate_quantity quantity then (Inr None, tr)
      else if \<not> validate_price stop_price \<or> \<not> validate_price limit_price then (Inr None, tr)
      else case format_quantity e symbol quantity tr of (formatted_quantity, tr1) \<Rightarrow>
           case format_price e symbol stop_price tr1 of (formatted_stop_price, tr2) \<Rightarrow>
           case format_price e symbol limit_price tr2 of (formatted_limit_price, tr3) \<Rightarrow>
        if formatted_quantity = None \<or> formatted_stop_price = None \<or> formatted_limit_price = None
        then (Inr None, tr3)
        else
          (case call_create_order e
                  \<lparr>o_symbol = symbol, o_side = upper side, o_type = ''STOP'',
                   o_quantity = the formatted_quantity, o_price = formatted_limit_price,
                   o_stopPrice = formatted_stop_price, o_timeInForce = Some ''GTC'',
                   o_reduceOnly = Some reduce_only\<rparr> tr3 of
             (Inr order, tr4) \<Rightarrow> (Inr (Some order), tr4)
           | (Inl ex, tr4) \<Rightarrow>
               (case ex of
                  BinanceAPIException c \<Rightarrow> (Inr None, tr4)
                | BinanceOrderException \<Rightarrow> (Inr None, tr4)
                | _ \<Rightarrow> (Inr None, tr4))))"

subsection \<open>Pseudo-OCO (oco.py)\<close>

record oco_orders =
  stop_loss :: order_response
  take_profit :: order_response

text \<open>
  \<^verbatim>\<open>_cancel_oco_orders\<close> walks the items of the dictionary of the orders placed so far;
  a failing cancellation is caught and the walk goes on.
\<close>

fun cancel_oco_orders :: "env \<Rightarrow> string \<Rightarrow> (string \<times> order_response) list \<Rightarrow> trace \<Rightarrow> trace" where
  "cancel_oco_orders e symbol [] tr = tr"
| "cancel_oco_orders e symbol ((order_type, order) # rest) tr =
     (case orderId order of
        None \<Rightarrow> cancel_oco_orders e symbol rest tr
      | Some oid \<Rightarrow>
          (case call_cancel_order e symbol oid tr of
             (Inr u, tr') \<Rightarrow> cancel_oco_orders e symbol rest tr'
           | (Inl ex, tr') \<Rightarrow> cancel_oco_orders e symbol rest tr'))"

definition opposite_side :: "string \<Rightarrow> string" where
  "opposite_side side = (if upper side = ''BUY'' then ''SELL'' else ''BUY'')"

definition place_oco_order ::
  "env \<Rightarrow> string \<Rightarrow> string \<Rightarrow> rat \<Rightarrow> rat \<Rightarrow> rat \<Rightarrow> rat \<Rightarrow> bool \<Rightarrow> trace
     \<Rightarrow> (exn + oco_orders option) \<times> trace" where
  "place_oco_order e symbol side quantity price stop_price limit_price reduce_only tr =
     (if \<not> validate_symbol symbol then (Inr None, tr)
      else if \<not> side_ok side then (Inr None, tr)
      else if \<not> validate_quantity quantity then (Inr None, tr)
      else if \<not> list_all validate_price [price, stop_price, limit_price] then (Inr None, tr)
      else case format_quantity e symbol quantity tr of (formatted_quantity, tr1) \<Rightarrow>
           case format_price e symbol stop_price tr1 of (formatted_stop_price, tr2) \<Rightarrow>
           case format_price e symbol limit_price tr2 of (formatted_limit_price, tr3) \<Rightarrow>
        if formatted_quantity = None \<or> formatted_stop_price = None \<or> formatted_limit_price = None
        then (Inr None, tr3)
        else
          (case call_create_order e
                  \<lparr>o_symbol = symbol, o_side = opposite_side side, o_type = ''STOP_MARKET'',
                   o_quantity = the formatted_quantity, o_price = None,
                   o_stopPrice = formatted_stop_price, o_timeInForce = None,
                   o_reduceOnly = Some reduce_only\<rparr> tr3 of
             (Inl ex, tr4) \<Rightarrow> (Inr None, cancel_oco_orders e symbol [] tr4)
           | (Inr stop_order, tr4) \<Rightarrow>
               (case call_create_order e
                       \<lparr>o_symbol = symbol, o_side = opposite_side side,
                        o_type = ''TAKE_PROFIT_MARKET'',
                        o_quantity = the formatted_quantity, o_price = None,
                        o_stopPrice = formatted_limit_price, o_timeInForce = None,
                        o_reduceOnly = Some reduce_only\<rparr> tr4 of
                  (Inl ex, tr5) \<Rightarrow>
                    (Inr None, cancel_oco_orders e symbol [(''stop_loss'', stop_order)] tr5)
                | (Inr take_profit_order, tr5) \<Rightarrow>
                    (Inr (Some \<lparr>stop_loss = stop_order, take_profit = take_profit_order\<rparr>), tr5))))"

subsection \<open>TWAP (twap.py)\<close>

text \<open>
  The body of \<^verbatim>\<open>for i in range(num_intervals)\<close>, over the indices still to run. The
  result carries the exception that left the loop, if any, and the list \<^verbatim>\<open>orders\<close> as
  it stands then: the handlers read it.
\<close>

fun twap_loop ::
  "env \<Rightarrow> string \<Rightarrow> string \<Rightarrow> string \<Rightarrow> rat \<Rightarrow> rat \<Rightarrow> int \<Rightarrow> nat list \<Rightarrow> order_response list
     \<Rightarrow> trace \<Rightarrow> (exn option \<times> order_response list) \<times> trace" where
  "twap_loop e symbol side order_type fq interval_seconds num_intervals [] orders tr =
     ((None, orders), tr)"
| "twap_loop e symbol side order_type fq interval_seconds num_intervals (i # rest) orders tr =
     (if order_type = ''MARKET'' then
        (case call_create_order e
                \<lparr>o_symbol = symbol, o_side = upper side, o_type = ''MARKET'', o_quantity = fq,
                 o_price = None, o_stopPrice = None, o_timeInForce = None,
                 o_reduceOnly = None\<rparr> tr of
           (Inl ex, tr1) \<Rightarrow> ((Some ex, orders), tr1)
         | (Inr order, tr1) \<Rightarrow>
             (if int i < num_intervals - 1 then
                (case call_sleep e interval_seconds tr1 of
                   (Inl ex, tr2) \<Rightarrow> ((Some ex, orders @ [order]), tr2)
                 | (Inr u, tr2) \<Rightarrow>
                     twap_loop e symbol side order_type fq interval_seconds num_intervals rest
                       (orders @ [order]) tr2)
              else
                twap_loop e symbol side order_type fq interval_seconds num_intervals rest
                  (orders @ [order]) tr1))
      else
        (case call_symbol_ticker e symbol tr of
           (Inl ex, tr1) \<Rightarrow> ((Some ex, orders), tr1)
         | (Inr current_price, tr1) \<Rightarrow>
             (case format_price e symbol
                     (if upper side = ''BUY'' then current_price * (999 / 1000)
                      else current_price * (1001 / 1000)) tr1 of
                (None, tr2) \<Rightarrow>
                  twap_loop e symbol side order_type fq interval_seconds num_intervals rest
                    orders tr2
              | (Some formatted_price, tr2) \<Rightarrow>
                  (case call_create_order e
                          \<lparr>o_symbol = symbol, o_side = upper side, o_type = ''LIMIT'',
                           o_quantity = fq, o_price = Some formatted_price, o_stopPrice = None,
                           o_timeInForce = Some ''IOC'', o_reduceOnly = None\<rparr> tr2 of
                     (Inl ex, tr3) \<Rightarrow> ((Some ex, orders), tr3)
                   | (Inr order, tr3) \<Rightarrow>
                       (if int i < num_intervals - 1 then
                          (case call_sleep e interval_seconds tr3 of
                             (Inl ex, tr4) \<Rightarrow> ((Some ex, orders @ [order]), tr4)
                           | (Inr u, tr4) \<Rightarrow>
                               twap_loop e symbol side order_type fq interval_seconds
                                 num_intervals rest (orders @ [order]) tr4)
                        else
                          twap_loop e symbol side order_type fq interval_seconds num_intervals
                            rest (orders @ [order]) tr3)))))"

definition place_twap_order ::
  "env \<Rightarrow> string \<Rightarrow> string \<Rightarrow> rat \<Rightarrow> int \<Rightarrow> int \<Rightarrow> string \<Rightarrow> trace
     \<Rightarrow> (exn + order_response list option) \<times> trace" where
  "place_twap_order e symbol side total_quantity duration_minutes num_intervals order_type tr =
     (if \<not> validate_symbol symbol then (Inr None, tr)
      else if \<not> side_ok side then (Inr None, tr)
      else if \<not> validate_quantity total_quantity then (Inr None, tr)
      else if duration_minutes \<le> 0 \<or> num_intervals \<le> 0 then (Inr None, tr)
      else if order_type \<notin> {''MARKET'', ''LIMIT''} then (Inr None, tr)
      else if float_overflows (of_int num_intervals) then (Inl OverflowError, tr)
      else if float_overflows (of_int (duration_minutes * 60) / of_int num_intervals)
        then (Inl OverflowError, tr)
      else case format_quantity e symbol (total_quantity / of_int num_intervals) tr of
        (None, tr1) \<Rightarrow> (Inr None, tr1)
      | (Some formatted_interval_quantity, tr1) \<Rightarrow>
          (case twap_loop e symbol side order_type formatted_interval_quantity
                  (of_int (duration_minutes * 60) / of_int num_intervals) num_intervals
                  [0..<nat num_intervals] [] tr1 of
             ((None, orders), tr2) \<Rightarrow> (Inr (Some orders), tr2)
           | ((Some ex, orders), tr2) \<Rightarrow>
               (case ex of
                  BinanceAPIException c \<Rightarrow> (Inr (if orders \<noteq> [] then Some orders else None), tr2)
                | BinanceOrderException \<Rightarrow> (Inr (if orders \<noteq> [] then Some orders else None), tr2)
                | _ \<Rightarrow> (Inr (if orders \<noteq> [] then Some orders else None), tr2))))"

subsection \<open>Grid (grid.py)\<close>

record grid_result =
  buy_orders :: "order_response list"
  sell_orders :: "order_response list"
  total_buy_orders :: "nat option"
  total_sell_orders :: "nat option"

text \<open>The first pass, \<^verbatim>\<open>for price in grid_prices: if price < current_price: ...\<close>.\<close>

fun grid_buy_loop ::
  "env \<Rightarrow> string \<Rightarrow> string \<Rightarrow> rat \<Rightarrow> rat \<Rightarrow> rat list \<Rightarrow> order_response list \<Rightarrow> trace
     \<Rightarrow> (exn option \<times> order_response list) \<times> trace" where
  "grid_buy_loop e symbol order_type fq current_price [] buys tr = ((None, buys), tr)"
| "grid_buy_loop e symbol order_type fq current_price (price # rest) buys tr =
     (if price < current_price then
        (case format_price e symbol price tr of
           (None, tr1) \<Rightarrow> grid_buy_loop e symbol order_type fq current_price rest buys tr1
         | (Some formatted_price, tr1) \<Rightarrow>
             (case call_create_order e
                     (if order_type = ''LIMIT'' then
                        \<lparr>o_symbol = symbol, o_side = ''BUY'', o_type = ''LIMIT'', o_quantity = fq,
                         o_price = Some formatted_price, o_stopPrice = None,
                         o_timeInForce = Some ''GTC'', o_reduceOnly = None\<rparr>
                      else
                        \<lparr>o_symbol = symbol, o_side = ''BUY'', o_type = ''MARKET'', o_quantity = fq,
                         o_price = None, o_stopPrice = None, o_timeInForce = None,
                         o_reduceOnly = None\<rparr>) tr1 of
                (Inl ex, tr2) \<Rightarrow> ((Some ex, buys), tr2)
              | (Inr order, tr2) \<Rightarrow>
                  grid_buy_loop e symbol order_type fq current_price rest (buys @ [order]) tr2))
      else grid_buy_loop e symbol order_type fq current_price rest buys tr)"

text \<open>The second pass, \<^verbatim>\<open>for price in grid_prices: if price > current_price: ...\<close>.\<close>

fun grid_sell_loop ::
  "env \<Rightarrow> string \<Rightarrow> string \<Rightarrow> rat \<Rightarrow> rat \<Rightarrow> rat list \<Rightarrow> order_response list \<Rightarrow> trace
     \<Rightarrow> (exn option \<times> order_response list) \<times> trace" where
  "grid_sell_loop e symbol order_type fq current_price [] sells tr = ((None, sells), tr)"
| "grid_sell_loop e symbol order_type fq current_price (price # rest) sells tr =
     (if price > current_price then
        (case format_price e symbol price tr of
           (None, tr1) \<Rightarrow> grid_sell_loop e symbol order_type fq current_price rest sells tr1
         | (Some formatted_price, tr1) \<Rightarrow>
             (case call_create_order e
                     (if order_type = ''LIMIT'' then
                        \<lparr>o_symbol = symbol, o_side = ''SELL'', o_type = ''LIMIT'', o_quantity = fq,
                         o_price = Some formatted_price, o_stopPrice = None,
                         o_timeInForce = Some ''GTC'', o_reduceOnly = None\<rparr>
                      else
                        \<lparr>o_symbol = symbol, o_side = ''SELL'', o_type = ''MARKET'', o_quantity = fq,
                         o_price = None, o_stopPrice = None, o_timeInForce = None,
                         o_reduceOnly = None\<rparr>) tr1 of
                (Inl ex, tr2) \<Rightarrow> ((Some ex, sells), tr2)
              | (Inr order, tr2) \<Rightarrow>
                  grid_sell_loop e symbol order_type fq current_price rest (sells @ [order]) tr2))
      else grid_sell_loop e symbol order_type fq current_price rest sells tr)"

text \<open>What the three handlers return: the orders placed so far, or \<^verbatim>\<open>None\<close> when there are none.\<close>

definition grid_partial :: "order_response list \<Rightarrow> order_response list \<Rightarrow> grid_result option" where
  "grid_partial buys sells =
     (if buys \<noteq> [] \<or> sells \<noteq> [] then
        Some \<lparr>buy_orders = buys, sell_orders = sells, total_buy_orders = None,
              total_sell_orders = None\<rparr>
      else None)"

definition place_grid_orders ::
  "env \<Rightarrow> string \<Rightarrow> rat \<Rightarrow> rat \<Rightarrow> int \<Rightarrow> rat \<Rightarrow> string \<Rightarrow> trace
     \<Rightarrow> (exn + grid_result option) \<times> trace" where
  "place_grid_orders e symbol lower_price upper_price grid_levels quantity_per_grid order_type tr =
     (if \<not> validate_symbol symbol then (Inr None, tr)
      else if \<not> validate_price lower_price \<or> \<not> validate_price upper_price then (Inr None, tr)
      else if lower_price \<ge> upper_price then (Inr None, tr)
      else if grid_levels \<le> 0 then (Inr None, tr)
      else if \<not> validate_quantity quantity_per_grid then (Inr None, tr)
      else if order_type \<notin> {''LIMIT'', ''MARKET''} then (Inr None, tr)
      else if float_overflows (of_int grid_levels) then (Inl OverflowError, tr)
      else case format_quantity e symbol quantity_per_grid tr of
        (None, tr1) \<Rightarrow> (Inr None, tr1)
      | (Some formatted_quantity, tr1) \<Rightarrow>
          (case call_symbol_ticker e symbol tr1 of
             (Inl ex, tr2) \<Rightarrow> (Inr (grid_partial [] []), tr2)
           | (Inr current_price, tr2) \<Rightarrow>
               (case grid_buy_loop e symbol order_type formatted_quantity current_price
                       (grid_prices lower_price upper_price grid_levels) [] tr2 of
                  ((Some ex, buys), tr3) \<Rightarrow> (Inr (grid_partial buys []), tr3)
                | ((None, buys), tr3) \<Rightarrow>
                    (case grid_sell_loop e symbol order_type formatted_quantity current_price
                            (grid_prices lower_price upper_price grid_levels) [] tr3 of
                       ((Some ex, sells), tr4) \<Rightarrow> (Inr (grid_partial buys sells), tr4)
                     | ((None, sells), tr4) \<Rightarrow>
                         (Inr (Some \<lparr>buy_orders = buys, sell_orders = sells,
                                     total_buy_orders = Some (length buys),
                                     total_sell_orders = Some (length sells)\<rparr>), tr4)))))"

subsection \<open>Connection setup (BasicBot.\_\_init\_\_)\<close>

text \<open>
  The client is constructed outside any handler; \<^verbatim>\<open>_sync_server_time\<close> catches every
  exception of its request; the account query re-raises what it catches.
\<close>

definition BasicBot_init :: "env \<Rightarrow> trace \<Rightarrow> (exn + unit) \<times> trace" where
  "BasicBot_init e tr =
     (case client_new e (length tr) of
        Inl ex \<Rightarrow> (Inl ex, tr @ [ClientNew])
      | Inr u \<Rightarrow>
          (case futures_account e (length (tr @ [ClientNew, GetServerTime])) of
             Inl ex \<Rightarrow> (Inl ex, tr @ [ClientNew, GetServerTime, FuturesAccount])
           | Inr account_info \<Rightarrow> (Inr (), tr @ [ClientNew, GetServerTime, FuturesAccount])))"

subsection \<open>Reading a trace\<close>

text \<open>The order-creation requests recorded in a trace, in order.\<close>

fun create_requests :: "trace \<Rightarrow> order_request list" where
  "create_requests [] = []"
| "create_requests (FuturesCreateOrder req # tr) = req # create_requests tr"
| "create_requests (ev # tr) = create_requests tr"

text \<open>
  The outcomes of the order-creation calls among the events \<open>evs\<close> performed from clock
  \<open>n\<close> on: the environment is asked again what it answered then.
\<close>

fun create_outcomes :: "env \<Rightarrow> nat \<Rightarrow> trace \<Rightarrow> (exn + order_response) list" where
  "create_outcomes e n [] = []"
| "create_outcomes e n (FuturesCreateOrder req # evs) =
     futures_create_order e n req # create_outcomes e (Suc n) evs"
| "create_outcomes e n (ev # evs) = create_outcomes e (Suc n) evs"

text \<open>The responses among a list of outcomes.\<close>

fun successes :: "(exn + 'a) list \<Rightarrow> 'a list" where
  "successes [] = []"
| "successes (Inr x # rs) = x # successes rs"
| "successes (Inl ex # rs) = successes rs"

text \<open>Whether a ticker fetch, an order creation or a sleep among the events raised.\<close>

fun raised :: "env \<Rightarrow> nat \<Rightarrow> trace \<Rightarrow> bool" where
  "raised e n [] = False"
| "raised e n (FuturesSymbolTicker symbol # evs) =
     (isl (futures_symbol_ticker e n symbol) \<or> raised e (Suc n) evs)"
| "raised e n (FuturesCreateOrder req # evs) =
     (isl (futures_create_order e n req) \<or> raised e (Suc n) evs)"
| "raised e n (Sleep seconds # evs) = (isl (time_sleep e n seconds) \<or> raised e (Suc n) evs)"
| "raised e n (ev # evs) = raised e (Suc n) evs"

text \<open>What a metadata lookup for the symbol yields at clock \<open>n\<close>.\<close>

definition lookup_at :: "env \<Rightarrow> string \<Rightarrow> nat \<Rightarrow> symbol_info option" where
  "lookup_at e symbol n = fst (get_symbol_info e symbol (replicate n ClientNew))"

text \<open>How many metadata lookups among the events found no entry for the symbol.\<close>

fun failed_lookups :: "env \<Rightarrow> string \<Rightarrow> nat \<Rightarrow> trace \<Rightarrow> nat" where
  "failed_lookups e symbol n [] = 0"
| "failed_lookups e symbol n (FuturesExchangeInfo # evs) =
     (if lookup_at e symbol n = None then Suc (failed_lookups e symbol (Suc n) evs)
      else failed_lookups e symbol (Suc n) evs)"
| "failed_lookups e symbol n (ev # evs) = failed_lookups e symbol (Suc n) evs"

subsection \<open>Sample environments\<close>

text \<open>
  An exchange that knows \<^verbatim>\<open>ETHUSDT\<close> and \<^verbatim>\<open>BTCUSDT\<close>, quotes 150 and numbers its
  orders by the clock. The three predicates say at which clocks order creation, the
  metadata fetch and the account query raise. The concrete runs below use it.
\<close>

definition sim_env :: "(nat \<Rightarrow> bool) \<Rightarrow> (nat \<Rightarrow> bool) \<Rightarrow> (nat \<Rightarrow> bool) \<Rightarrow> env" where
  "sim_env create_fails info_fails account_fails =
     \<lparr>client_new = (\<lambda>n. Inr ()),
      futures_account =
        (\<lambda>n. if account_fails n then Inl (BinanceAPIException (- 1022)) else Inr ''1000''),
      futures_exchange_info =
        (\<lambda>n. if info_fails n then Inl OtherException
             else Inr [\<lparr>si_symbol = ''ETHUSDT'', quantityPrecision = Some 2,
                         pricePrecision = Some 1\<rparr>,
                       \<lparr>si_symbol = ''BTCUSDT'', quantityPrecision = Some 3,
                         pricePrecision = Some 2\<rparr>]),
      futures_symbol_ticker = (\<lambda>n symbol. Inr 150),
      futures_create_order =
        (\<lambda>n req. if create_fails n then Inl (BinanceAPIException (- 2019))
                 else Inr \<lparr>orderId = Some n, payload = o_side req\<rparr>),
      futures_cancel_order = (\<lambda>n symbol oid. Inr ()),
      time_sleep = (\<lambda>n seconds. Inr ())\<rparr>"

definition never :: "nat \<Rightarrow> bool" where
  "never n = False"

definition from_clock :: "nat \<Rightarrow> nat \<Rightarrow> bool" where
  "from_clock k n = (k \<le> n)"

definition at_clock :: "nat \<Rightarrow> nat \<Rightarrow> bool" where
  "at_clock k n = (n = k)"

subsection \<open>Specification of one grid pass\<close>


section \<open>Properties\<close>

subsection \<open>The grid price ladder\<close>






subsection \<open>Validation comes before every remote call\<close>

text \<open>
  Claim C4. Each of the six builders, given a quantity or a price argument that is zero
  or negative, returns \<^verbatim>\<open>None\<close> and leaves the trace as it was: no metadata fetch, no
  ticker fetch and no order creation has been issued.
\<close>

theorem nonpositive_rejected:
  "(quantity \<le> 0 \<longrightarrow>
      place_market_order e symbol side quantity reduce_only tr = (Inr None, tr))
 \<and> (quantity \<le> 0 \<or> price \<le> 0 \<longrightarrow>
      place_limit_order e symbol side quantity price time_in_force reduce_only tr = (Inr None, tr))
 \<and> (quantity \<le> 0 \<or> stop_price \<le> 0 \<or> limit_price \<le> 0 \<longrightarrow>
      place_stop_limit_order e symbol side quantity stop_price limit_price reduce_only tr
        = (Inr None, tr))
 \<and> (quantity \<le> 0 \<or> price \<le> 0 \<or> stop_price \<le> 0 \<or> limit_price \<le> 0 \<longrightarrow>
      place_oco_order e symbol side quantity price stop_price limit_price reduce_only tr
        = (Inr None, tr))
 \<and> (quantity \<le> 0 \<longrightarrow>
      place_twap_order e symbol side quantity duration_minutes num_intervals order_type tr
        = (Inr None, tr))
 \<and> (lower_price \<le> 0 \<or> upper_price \<le> 0 \<or> quantity \<le> 0 \<longrightarrow>
      place_grid_orders e symbol lower_price upper_price grid_levels quantity order_type tr
        = (Inr None, tr))"
  by (auto simp: place_market_order_def place_limit_order_def place_stop_limit_order_def
      place_oco_order_def place_twap_order_def place_grid_orders_def
      validate_quantity_def validate_price_def)

theorem nonpositive_rejected_witness:
  "(0::rat) \<le> 0 \<and> (- 5 :: rat) \<le> 0
 \<and> place_market_order (sim_env never never never) ''BTCUSDT'' ''BUY'' 0 False [] = (Inr None, [])
 \<and> place_limit_order (sim_env never never never) ''BTCUSDT'' ''BUY'' 1 (- 5) ''GTC'' False []
      = (Inr None, [])
 \<and> place_stop_limit_order (sim_env never never never) ''BTCUSDT'' ''SELL'' 1 (- 5) 140 False []
      = (Inr None, [])
 \<and> place_oco_order (sim_env never never never) ''BTCUSDT'' ''BUY'' 1 150 140 (- 5) False []
      = (Inr None, [])
 \<and> place_twap_order (sim_env never never never) ''BTCUSDT'' ''BUY'' 0 10 3 ''MARKET'' []
      = (Inr None, [])
 \<and> place_grid_orders (sim_env never never never) ''BTCUSDT'' (- 5) 200 4 1 ''LIMIT'' []
      = (Inr None, [])"
  using nonpositive_rejected[where quantity = 0 and e = "sim_env never never never"
      and symbol = "''BTCUSDT''" and side = "''BUY''" and reduce_only = False and tr = "[]"
      and duration_minutes = 10 and num_intervals = 3 and order_type = "''MARKET''"]
    nonpositive_rejected[where quantity = 1 and e = "sim_env never never never"
      and symbol = "''BTCUSDT''" and side = "''BUY''" and reduce_only = False and tr = "[]"
      and price = "- 5" and time_in_force = "''GTC''"]
    nonpositive_rejected[where quantity = 1 and e = "sim_env never never never"
      and symbol = "''BTCUSDT''" and side = "''SELL''" and reduce_only = False and tr = "[]"
      and stop_price = "- 5" and limit_price = 140]
    nonpositive_rejected[where quantity = 1 and e = "sim_env never never never"
      and symbol = "''BTCUSDT''" and side = "''BUY''" and reduce_only = False and tr = "[]"
      and price = 150 and stop_price = 140 and limit_price = "- 5"]
    nonpositive_rejected[where quantity = 1 and e = "sim_env never never never"
      and symbol = "''BTCUSDT''" and tr = "[]"
      and lower_price = "- 5" and upper_price = 200 and grid_levels = 4
      and order_type = "''LIMIT''"]
  by simp

lemma valid_BTCUSDT: "validate_symbol ''BTCUSDT''"
  by code_simp

lemma side_ok_BUY: "side_ok ''BUY''"
  by code_simp

text \<open>
  Claim C6, as the code has it. The side is compared after \<^verbatim>\<open>side.upper()\<close>, so a side is
  unrecognized when its upper-case form is neither \<^verbatim>\<open>BUY\<close> nor \<^verbatim>\<open>SELL\<close>; the
  time-in-force is compared as it is written, and only the limit builder takes one (the
  market builder sends none, the stop-limit builder always sends \<^verbatim>\<open>GTC\<close>). With such a
  side, or for the limit builder such a time-in-force, the builder returns \<^verbatim>\<open>None\<close> and
  issues no remote call.
\<close>

theorem unrecognized_side_or_tif_rejected:
  "(upper side \<noteq> ''BUY'' \<and> upper side \<noteq> ''SELL'' \<longrightarrow>
      place_market_order e symbol side quantity reduce_only tr = (Inr None, tr))
 \<and> ((upper side \<noteq> ''BUY'' \<and> upper side \<noteq> ''SELL'')
      \<or> (time_in_force \<noteq> ''GTC'' \<and> time_in_force \<noteq> ''IOC'' \<and> time_in_force \<noteq> ''FOK'') \<longrightarrow>
      place_limit_order e symbol side quantity price time_in_force reduce_only tr = (Inr None, tr))
 \<and> (upper side \<noteq> ''BUY'' \<and> upper side \<noteq> ''SELL'' \<longrightarrow>
      place_stop_limit_order e symbol side quantity stop_price limit_price reduce_only tr
        = (Inr None, tr))"
  by (simp add: place_market_order_def place_limit_order_def place_stop_limit_order_def
      side_ok_def)

theorem unrecognized_side_or_tif_rejected_witness:
  "upper ''hold'' \<noteq> ''BUY'' \<and> upper ''hold'' \<noteq> ''SELL''
 \<and> ''gtc'' \<noteq> ''GTC'' \<and> ''gtc'' \<noteq> ''IOC'' \<and> ''gtc'' \<noteq> ''FOK''
 \<and> place_market_order (sim_env never never never) ''BTCUSDT'' ''hold'' 1 False []
      = (Inr None, [])
 \<and> place_limit_order (sim_env never never never) ''BTCUSDT'' ''BUY'' 1 150 ''gtc'' False []
      = (Inr None, [])
 \<and> place_limit_order (sim_env never never never) ''BTCUSDT'' ''hold'' 1 150 ''GTC'' False []
      = (Inr None, [])
 \<and> place_stop_limit_order (sim_env never never never) ''BTCUSDT'' ''hold'' 1 140 139 False []
      = (Inr None, [])"
proof -
  have h: "upper ''hold'' \<noteq> ''BUY'' \<and> upper ''hold'' \<noteq> ''SELL''" by code_simp
  have g: "''gtc'' \<noteq> ''GTC'' \<and> ''gtc'' \<noteq> ''IOC'' \<and> ''gtc'' \<noteq> ''FOK''" by simp
  show ?thesis
    using h g
      unrecognized_side_or_tif_rejected[where side = "''hold''"
        and e = "sim_env never never never" and symbol = "''BTCUSDT''" and quantity = 1
        and reduce_only = False and tr = "[]" and price = 150 and time_in_force = "''GTC''"
        and stop_price = 140 and limit_price = 139]
      unrecognized_side_or_tif_rejected[where side = "''BUY''"
        and e = "sim_env never never never" and symbol = "''BTCUSDT''" and quantity = 1
        and reduce_only = False and tr = "[]" and price = 150 and time_in_force = "''gtc''"]
    by simp
qed

text \<open>
  Claim C6 as stated fails: the side \<^verbatim>\<open>buy\<close> is neither \<^verbatim>\<open>BUY\<close> nor \<^verbatim>\<open>SELL\<close>, and the
  market builder fetches the metadata and submits a \<^verbatim>\<open>BUY\<close> order for it.
\<close>

theorem side_case_counterexample:
  "''buy'' \<noteq> ''BUY'' \<and> ''buy'' \<noteq> ''SELL''
 \<and> place_market_order (sim_env never never never) ''BTCUSDT'' ''buy'' 1 False []
     = (Inr (Some \<lparr>orderId = Some 1, payload = ''BUY''\<rparr>),
        [FuturesExchangeInfo,
         FuturesCreateOrder
           \<lparr>o_symbol = ''BTCUSDT'', o_side = ''BUY'', o_type = ''MARKET'', o_quantity = 1,
            o_price = None, o_stopPrice = None, o_timeInForce = None,
            o_reduceOnly = Some False\<rparr>])"
  by code_simp

subsection \<open>Exceptions that leave a builder\<close>

text \<open>
  The market, limit, stop-limit and OCO builders never let an exception out. The TWAP and
  grid builders divide by their integer argument before their \<^verbatim>\<open>try\<close> block: the only
  exception that leaves them is the \<^verbatim>\<open>OverflowError\<close> of that division.
\<close>

lemma builders_raise_only_overflow:
  "(\<exists>r. fst (place_market_order e symbol side quantity reduce_only tr) = Inr r)
 \<and> (\<exists>r. fst (place_limit_order e symbol side quantity price time_in_force reduce_only tr) = Inr r)
 \<and> (\<exists>r. fst (place_stop_limit_order e symbol side quantity stop_price limit_price reduce_only tr)
        = Inr r)
 \<and> (\<exists>r. fst (place_oco_order e symbol side quantity price stop_price limit_price reduce_only tr)
        = Inr r)
 \<and> (\<forall>ex. fst (place_twap_order e symbol side quantity duration_minutes num_intervals
               order_type tr) = Inl ex \<longrightarrow>
        ex = OverflowError \<and>
        (float_overflows (of_int num_intervals)
         \<or> float_overflows (of_int (duration_minutes * 60) / of_int num_intervals)))
 \<and> (\<forall>ex. fst (place_grid_orders e symbol lower_price upper_price grid_levels quantity
               order_type tr) = Inl ex \<longrightarrow>
        ex = OverflowError \<and> float_overflows (of_int grid_levels))"
proof -
  have m: "\<exists>r. fst (place_market_order e symbol side quantity reduce_only tr) = Inr r"
    by (simp add: place_market_order_def split: prod.split option.split sum.split exn.split)
  have l: "\<exists>r. fst (place_limit_order e symbol side quantity price time_in_force reduce_only tr)
             = Inr r"
    by (simp add: place_limit_order_def split: prod.split option.split sum.split exn.split)
  have s: "\<exists>r. fst (place_stop_limit_order e symbol side quantity stop_price limit_price
             reduce_only tr) = Inr r"
    by (simp add: place_stop_limit_order_def split: prod.split option.split sum.split exn.split)
  have oc: "\<exists>r. fst (place_oco_order e symbol side quantity price stop_price limit_price
             reduce_only tr) = Inr r"
    by (simp add: place_oco_order_def split: prod.split option.split sum.split exn.split)
  have t: "\<forall>ex. fst (place_twap_order e symbol side quantity duration_minutes num_intervals
               order_type tr) = Inl ex \<longrightarrow>
        ex = OverflowError \<and>
        (float_overflows (of_int num_intervals)
         \<or> float_overflows (of_int (duration_minutes * 60) / of_int num_intervals))"
    by (simp add: place_twap_order_def split: prod.split option.split sum.split exn.split)
  have g: "\<forall>ex. fst (place_grid_orders e symbol lower_price upper_price grid_levels quantity
               order_type tr) = Inl ex \<longrightarrow>
        ex = OverflowError \<and> float_overflows (of_int grid_levels)"
    by (simp add: place_grid_orders_def split: prod.split option.split sum.split exn.split)
  show ?thesis using m l s oc t g by blast
qed

lemma BasicBot_init_raises:
  "fst (BasicBot_init e tr)
      = (case client_new e (length tr) of
           Inl ex \<Rightarrow> Inl ex
         | Inr u \<Rightarrow>
             (case futures_account e (length tr + 2) of
                Inl ex \<Rightarrow> Inl ex
              | Inr account_info \<Rightarrow> Inr ()))"
  by (simp add: BasicBot_init_def split: sum.split)

text \<open>
  Claim C7 says that no builder ever propagates an exception. The TWAP builder, called
  with \<open>num_intervals = 10^400\<close>, passes validation and raises \<^verbatim>\<open>OverflowError\<close> at
  \<^verbatim>\<open>total_quantity / num_intervals\<close>, outside its handlers.
\<close>

theorem twap_overflow_escapes:
  "fst (place_twap_order (sim_env never never never) ''BTCUSDT'' ''BUY'' 1 1 (10 ^ 400)
          ''MARKET'' []) = Inl OverflowError"
proof -
  have "(2::rat) ^ 1024 - 2 ^ 970 \<le> 10 ^ 400" by simp
  then have "float_overflows (of_int (10 ^ 400))" by (simp add: float_overflows_def)
  then show ?thesis
    by (simp add: place_twap_order_def valid_BTCUSDT side_ok_BUY validate_quantity_def)
qed

subsection \<open>What a successful OCO call submits\<close>

lemma snd_format_quantity [simp]:
  "snd (format_quantity e symbol q tr) = tr @ [FuturesExchangeInfo]"
  by (simp add: format_quantity_def get_symbol_info_def split: sum.split option.split)

lemma snd_format_price [simp]:
  "snd (format_price e symbol p tr) = tr @ [FuturesExchangeInfo]"
  by (simp add: format_price_def get_symbol_info_def split: sum.split option.split)

text \<open>
  Claim C9. When \<open>place_oco_order\<close> succeeds for side \<open>S\<close>, it has made three metadata
  fetches and then exactly two order submissions, both on the side opposite to \<open>S\<close> and both
  with the formatted quantity: a \<^verbatim>\<open>STOP_MARKET\<close> order whose \<^verbatim>\<open>stopPrice\<close> is the formatted
  stop price, then a \<^verbatim>\<open>TAKE_PROFIT_MARKET\<close> order whose \<^verbatim>\<open>stopPrice\<close> is the formatted
  limit price. Neither carries a \<^verbatim>\<open>price\<close>: no limit-type order is placed.
\<close>

theorem oco_success_orders:
  assumes "place_oco_order e symbol side quantity price stop_price limit_price reduce_only tr
             = (Inr (Some orders), tr')"
  shows "\<exists>opp fq fsp flp.
      ((upper side = ''BUY'' \<and> opp = ''SELL'') \<or> (upper side = ''SELL'' \<and> opp = ''BUY''))
    \<and> fst (format_quantity e symbol quantity tr) = Some fq
    \<and> fst (format_price e symbol stop_price (tr @ [FuturesExchangeInfo])) = Some fsp
    \<and> fst (format_price e symbol limit_price (tr @ [FuturesExchangeInfo, FuturesExchangeInfo]))
        = Some flp
    \<and> tr' = tr @ [FuturesExchangeInfo, FuturesExchangeInfo, FuturesExchangeInfo,
         FuturesCreateOrder
           \<lparr>o_symbol = symbol, o_side = opp, o_type = ''STOP_MARKET'', o_quantity = fq,
            o_price = None, o_stopPrice = Some fsp, o_timeInForce = None,
            o_reduceOnly = Some reduce_only\<rparr>,
         FuturesCreateOrder
           \<lparr>o_symbol = symbol, o_side = opp, o_type = ''TAKE_PROFIT_MARKET'', o_quantity = fq,
            o_price = None, o_stopPrice = Some flp, o_timeInForce = None,
            o_reduceOnly = Some reduce_only\<rparr>]"
proof -
  let ?fq = "fst (format_quantity e symbol quantity tr)"
  let ?fsp = "fst (format_price e symbol stop_price (tr @ [FuturesExchangeInfo]))"
  let ?flp = "fst (format_price e symbol limit_price (tr @ [FuturesExchangeInfo, FuturesExchangeInfo]))"
  from assms have ok: "side_ok side" and fmt: "?fq \<noteq> None" "?fsp \<noteq> None" "?flp \<noteq> None"
    by (simp_all add: place_oco_order_def split_beta split: if_splits)
  from fmt obtain fq fsp flp where f: "?fq = Some fq" "?fsp = Some fsp" "?flp = Some flp"
    by auto
  have opp: "(upper side = ''BUY'' \<and> opposite_side side = ''SELL'')
           \<or> (upper side = ''SELL'' \<and> opposite_side side = ''BUY'')"
    using ok by (auto simp: side_ok_def opposite_side_def)
  from assms ok f have "tr' = tr @ [FuturesExchangeInfo, FuturesExchangeInfo, FuturesExchangeInfo,
         FuturesCreateOrder
           \<lparr>o_symbol = symbol, o_side = opposite_side side, o_type = ''STOP_MARKET'',
            o_quantity = fq,
            o_price = None, o_stopPrice = Some fsp, o_timeInForce = None,
            o_reduceOnly = Some reduce_only\<rparr>,
         FuturesCreateOrder
           \<lparr>o_symbol = symbol, o_side = opposite_side side, o_type = ''TAKE_PROFIT_MARKET'',
            o_quantity = fq,
            o_price = None, o_stopPrice = Some flp, o_timeInForce = None,
            o_reduceOnly = Some reduce_only\<rparr>]"
    by (simp add: place_oco_order_def split_beta call_create_order_def
        split: if_splits sum.splits)
  with opp f show ?thesis by blast
qed

theorem oco_success_orders_witness:
  "place_oco_order (sim_env never never never) ''BTCUSDT'' ''buy'' (12345 / 10000) 150
       (1401234 / 10000) 160 True []
     = (Inr (Some \<lparr>stop_loss = \<lparr>orderId = Some 3, payload = ''SELL''\<rparr>,
                    take_profit = \<lparr>orderId = Some 4, payload = ''SELL''\<rparr>\<rparr>),
        [FuturesExchangeInfo, FuturesExchangeInfo, FuturesExchangeInfo,
         FuturesCreateOrder
           \<lparr>o_symbol = ''BTCUSDT'', o_side = ''SELL'', o_type = ''STOP_MARKET'',
            o_quantity = 617 / 500, o_price = None, o_stopPrice = Some (3503 / 25),
            o_timeInForce = None, o_reduceOnly = Some True\<rparr>,
         FuturesCreateOrder
           \<lparr>o_symbol = ''BTCUSDT'', o_side = ''SELL'', o_type = ''TAKE_PROFIT_MARKET'',
            o_quantity = 617 / 500, o_price = None, o_stopPrice = Some 160,
            o_timeInForce = None, o_reduceOnly = Some True\<rparr>])
 \<and> upper ''buy'' = ''BUY''
 \<and> fst (format_quantity (sim_env never never never) ''BTCUSDT'' (12345 / 10000) [])
      = Some (617 / 500)
 \<and> fst (format_price (sim_env never never never) ''BTCUSDT'' (1401234 / 10000)
          [FuturesExchangeInfo]) = Some (3503 / 25)"
proof -
  have run: "place_oco_order (sim_env never never never) ''BTCUSDT'' ''buy'' (12345 / 10000) 150
       (1401234 / 10000) 160 True []
     = (Inr (Some \<lparr>stop_loss = \<lparr>orderId = Some 3, payload = ''SELL''\<rparr>,
                    take_profit = \<lparr>orderId = Some 4, payload = ''SELL''\<rparr>\<rparr>),
        [FuturesExchangeInfo, FuturesExchangeInfo, FuturesExchangeInfo,
         FuturesCreateOrder
           \<lparr>o_symbol = ''BTCUSDT'', o_side = ''SELL'', o_type = ''STOP_MARKET'',
            o_quantity = 617 / 500, o_price = None, o_stopPrice = Some (3503 / 25),
            o_timeInForce = None, o_reduceOnly = Some True\<rparr>,
         FuturesCreateOrder
           \<lparr>o_symbol = ''BTCUSDT'', o_side = ''SELL'', o_type = ''TAKE_PROFIT_MARKET'',
            o_quantity = 617 / 500, o_price = None, o_stopPrice = Some 160,
            o_timeInForce = None, o_reduceOnly = Some True\<rparr>])"
    by code_simp
  have up: "upper ''buy'' = ''BUY''" by code_simp
  show ?thesis using run up oco_success_orders[OF run] by auto
qed

subsection \<open>Runs of the TWAP loop\<close>

lemma fst_get_symbol_info: "fst (get_symbol_info e symbol tr) = lookup_at e symbol (length tr)"
  by (simp add: lookup_at_def get_symbol_info_def split: sum.split)

lemma format_price_None: "(fst (format_price e symbol p tr) = None) = (lookup_at e symbol (length tr) = None)"
  by (simp add: format_price_def fst_get_symbol_info[symmetric] split: prod.split option.split)

lemma format_price_cases:
  "format_price e symbol p tr = (r, tr') \<Longrightarrow>
     tr' = tr @ [FuturesExchangeInfo] \<and> ((r = None) = (lookup_at e symbol (length tr) = None))"
  using format_price_None[of e symbol p tr] snd_format_price[of e symbol p tr] by simp

lemma twap_loop_run:
  "twap_loop e symbol side ot fq secs n idxs orders tr = ((x, os'), tr') \<Longrightarrow>
   \<exists>evs. tr' = tr @ evs
     \<and> os' = orders @ successes (create_outcomes e (length tr) evs)
     \<and> (x = None) = (\<not> raised e (length tr) evs)
     \<and> (x = None \<longrightarrow>
          length (create_requests evs) + failed_lookups e symbol (length tr) evs = length idxs)
     \<and> (ot = ''MARKET'' \<longrightarrow> failed_lookups e symbol (length tr) evs = 0)
     \<and> (\<forall>r \<in> set (create_requests evs). o_quantity r = fq)"
proof (induction idxs arbitrary: orders tr)
  case Nil
  then show ?case by simp
next
  case (Cons i idxs)
  show ?case
  proof (cases "ot = ''MARKET''")
    case True
    note IH = Cons.IH[unfolded True]
    from Cons.prems show ?thesis
      unfolding True
      apply (simp only: twap_loop.simps)
      apply (auto simp: call_create_order_def call_sleep_def
          split: if_splits sum.splits dest!: IH)
      done
  next
    case False
    from Cons.prems False show ?thesis
      apply (simp only: twap_loop.simps)
      apply (auto simp: call_create_order_def call_sleep_def call_symbol_ticker_def
          split: if_splits sum.splits prod.splits option.splits
          dest!: Cons.IH format_price_cases)
      done
  qed
qed


lemma fst_format_quantity:
  "fst (format_quantity e symbol q tr)
     = (case lookup_at e symbol (length tr) of
          None \<Rightarrow> None
        | Some si \<Rightarrow> Some (py_round q (case quantityPrecision si of None \<Rightarrow> 8 | Some p \<Rightarrow> p)))"
  by (simp add: format_quantity_def fst_get_symbol_info[symmetric] split: prod.split option.split)

lemma place_twap_order_valid:
  assumes "validate_symbol symbol" "side_ok side" "validate_quantity Q"
    "\<not> (d \<le> 0 \<or> n \<le> 0)" "ot \<in> {''MARKET'', ''LIMIT''}"
    "\<not> float_overflows (of_int n)" "\<not> float_overflows (of_int (d * 60) / of_int n)"
  shows "place_twap_order e symbol side Q d n ot tr =
     (case format_quantity e symbol (Q / of_int n) tr of
        (None, tr1) \<Rightarrow> (Inr None, tr1)
      | (Some fq, tr1) \<Rightarrow>
          (case twap_loop e symbol side ot fq (of_int (d * 60) / of_int n) n
                  [0..<nat n] [] tr1 of
             ((None, orders), tr2) \<Rightarrow> (Inr (Some orders), tr2)
           | ((Some ex, orders), tr2) \<Rightarrow>
               (case ex of
                  BinanceAPIException c \<Rightarrow> (Inr (if orders \<noteq> [] then Some orders else None), tr2)
                | BinanceOrderException \<Rightarrow> (Inr (if orders \<noteq> [] then Some orders else None), tr2)
                | _ \<Rightarrow> (Inr (if orders \<noteq> [] then Some orders else None), tr2))))"
  unfolding place_twap_order_def
  by (simp only: assms if_False if_True not_True_eq_False not_False_eq_True simp_thms)

lemma place_twap_order_invalid:
  assumes "\<not> (validate_symbol symbol \<and> side_ok side \<and> validate_quantity Q
      \<and> \<not> (d \<le> 0 \<or> n \<le> 0) \<and> ot \<in> {''MARKET'', ''LIMIT''}
      \<and> \<not> float_overflows (of_int n) \<and> \<not> float_overflows (of_int (d * 60) / of_int n))"
  shows "place_twap_order e symbol side Q d n ot tr = (Inr None, tr)
       \<or> place_twap_order e symbol side Q d n ot tr = (Inl OverflowError, tr)"
proof -
  consider "\<not> validate_symbol symbol"
    | "validate_symbol symbol" "\<not> side_ok side"
    | "validate_symbol symbol" "side_ok side" "\<not> validate_quantity Q"
    | "validate_symbol symbol" "side_ok side" "validate_quantity Q" "d \<le> 0 \<or> n \<le> 0"
    | "validate_symbol symbol" "side_ok side" "validate_quantity Q" "\<not> (d \<le> 0 \<or> n \<le> 0)"
      "ot \<notin> {''MARKET'', ''LIMIT''}"
    | "validate_symbol symbol" "side_ok side" "validate_quantity Q" "\<not> (d \<le> 0 \<or> n \<le> 0)"
      "ot \<in> {''MARKET'', ''LIMIT''}" "float_overflows (of_int n)"
    | "validate_symbol symbol" "side_ok side" "validate_quantity Q" "\<not> (d \<le> 0 \<or> n \<le> 0)"
      "ot \<in> {''MARKET'', ''LIMIT''}" "\<not> float_overflows (of_int n)"
      "float_overflows (of_int (d * 60) / of_int n)"
    using assms by blast
  then show ?thesis
  proof cases
    case 1
    then show ?thesis unfolding place_twap_order_def
      by (simp only: if_True if_False not_True_eq_False not_False_eq_True simp_thms)
  next
    case 2
    then show ?thesis unfolding place_twap_order_def
      by (simp only: if_True if_False not_True_eq_False not_False_eq_True simp_thms)
  next
    case 3
    then show ?thesis unfolding place_twap_order_def
      by (simp only: if_True if_False not_True_eq_False not_False_eq_True simp_thms)
  next
    case 4
    then show ?thesis unfolding place_twap_order_def
      by (simp only: if_True if_False not_True_eq_False not_False_eq_True simp_thms)
  next
    case 5
    then show ?thesis unfolding place_twap_order_def
      by (simp only: if_True if_False not_True_eq_False not_False_eq_True simp_thms)
  next
    case 6
    then show ?thesis unfolding place_twap_order_def
      by (simp only: if_True if_False not_True_eq_False not_False_eq_True simp_thms)
  next
    case 7
    then show ?thesis unfolding place_twap_order_def
      by (simp only: if_True if_False not_True_eq_False not_False_eq_True simp_thms)
  qed
qed

lemma place_twap_order_cases:
  assumes run: "place_twap_order e symbol side Q d n ot tr = (res, tr')"
  shows "(tr' = tr \<and> (res = Inr None \<or> res = Inl OverflowError)
          \<and> \<not> (validate_symbol symbol \<and> side_ok side \<and> validate_quantity Q
                \<and> \<not> (d \<le> 0 \<or> n \<le> 0) \<and> ot \<in> {''MARKET'', ''LIMIT''}
                \<and> \<not> float_overflows (of_int n)
                \<and> \<not> float_overflows (of_int (d * 60) / of_int n)))
       \<or> (tr' = tr @ [FuturesExchangeInfo] \<and> res = Inr None
            \<and> lookup_at e symbol (length tr) = None)
       \<or> (\<exists>p (x::exn option) os evs.
            tr' = tr @ FuturesExchangeInfo # evs
          \<and> 0 < n \<and> 0 < Q \<and> ot \<in> {''MARKET'', ''LIMIT''}
          \<and> lookup_at e symbol (length tr) \<noteq> None
          \<and> res = Inr (if x = None \<or> os \<noteq> [] then Some os else None)
          \<and> os = successes (create_outcomes e (Suc (length tr)) evs)
          \<and> (x = None) = (\<not> raised e (Suc (length tr)) evs)
          \<and> (x = None \<longrightarrow>
               length (create_requests evs) + failed_lookups e symbol (Suc (length tr)) evs
                 = nat n)
          \<and> (ot = ''MARKET'' \<longrightarrow> failed_lookups e symbol (Suc (length tr)) evs = 0)
          \<and> (\<forall>r \<in> set (create_requests evs). o_quantity r = py_round (Q / of_int n) p))"
proof (cases "validate_symbol symbol \<and> side_ok side \<and> validate_quantity Q
      \<and> \<not> (d \<le> 0 \<or> n \<le> 0) \<and> ot \<in> {''MARKET'', ''LIMIT''}
      \<and> \<not> float_overflows (of_int n) \<and> \<not> float_overflows (of_int (d * 60) / of_int n)")
  case False
  from place_twap_order_invalid[OF False, of e tr] run
  have A: "tr' = tr \<and> (res = Inr None \<or> res = Inl OverflowError)"
    by auto
  show ?thesis
    by (rule disjI1) (use A False in blast)
next
  case True
  then have v: "validate_symbol symbol" "side_ok side" "validate_quantity Q"
    "\<not> (d \<le> 0 \<or> n \<le> 0)" "ot \<in> {''MARKET'', ''LIMIT''}"
    "\<not> float_overflows (of_int n)" "\<not> float_overflows (of_int (d * 60) / of_int n)"
    by blast+
  note unf = place_twap_order_valid[OF v, of e tr]
  show ?thesis
  proof (cases "lookup_at e symbol (length tr)")
    case None
    then have "format_quantity e symbol (Q / of_int n) tr = (None, tr @ [FuturesExchangeInfo])"
      using fst_format_quantity[of e symbol "Q / of_int n" tr]
        snd_format_quantity[of e symbol "Q / of_int n" tr]
      by (simp add: prod_eq_iff)
    with run None show ?thesis
      unfolding unf by simp
  next
    case (Some si)
    define p where "p = (case quantityPrecision si of None \<Rightarrow> 8 | Some p \<Rightarrow> p)"
    have fmt: "format_quantity e symbol (Q / of_int n) tr
        = (Some (py_round (Q / of_int n) p), tr @ [FuturesExchangeInfo])"
      using Some fst_format_quantity[of e symbol "Q / of_int n" tr]
        snd_format_quantity[of e symbol "Q / of_int n" tr]
      by (simp add: prod_eq_iff p_def)
    obtain x os tr2 where loop:
      "twap_loop e symbol side ot (py_round (Q / of_int n) p) (of_int (d * 60) / of_int n) n
         [0..<nat n] [] (tr @ [FuturesExchangeInfo]) = ((x, os), tr2)"
      by (metis surj_pair)
    have "place_twap_order e symbol side Q d n ot tr
        = (Inr (if x = None \<or> os \<noteq> [] then Some os else None), tr2)"
      unfolding unf fmt
      apply (simp only: prod.case option.case loop)
      apply (cases x)
       apply (simp_all only: option.case simp_thms if_True if_False split: exn.split)
      apply simp
      done
    with run have "(res, tr') = (Inr (if x = None \<or> os \<noteq> [] then Some os else None), tr2)"
      by simp
    then have res: "res = Inr (if x = None \<or> os \<noteq> [] then Some os else None)"
      and tr2: "tr' = tr2"
      by simp_all
    from twap_loop_run[OF loop] obtain evs where
      evs: "tr2 = (tr @ [FuturesExchangeInfo]) @ evs"
        "os = [] @ successes (create_outcomes e (length (tr @ [FuturesExchangeInfo])) evs)"
        "(x = None) = (\<not> raised e (length (tr @ [FuturesExchangeInfo])) evs)"
        "x = None \<longrightarrow> length (create_requests evs)
            + failed_lookups e symbol (length (tr @ [FuturesExchangeInfo])) evs
            = length [0..<nat n]"
        "ot = ''MARKET'' \<longrightarrow> failed_lookups e symbol (length (tr @ [FuturesExchangeInfo])) evs = 0"
        "\<forall>r \<in> set (create_requests evs). o_quantity r = py_round (Q / of_int n) p"
      by blast
    have F: "tr' = tr @ FuturesExchangeInfo # evs
          \<and> 0 < n \<and> 0 < Q \<and> ot \<in> {''MARKET'', ''LIMIT''}
          \<and> lookup_at e symbol (length tr) \<noteq> None
          \<and> res = Inr (if x = None \<or> os \<noteq> [] then Some os else None)
          \<and> os = successes (create_outcomes e (Suc (length tr)) evs)
          \<and> (x = None) = (\<not> raised e (Suc (length tr)) evs)
          \<and> (x = None \<longrightarrow>
               length (create_requests evs) + failed_lookups e symbol (Suc (length tr)) evs
                 = nat n)
          \<and> (ot = ''MARKET'' \<longrightarrow> failed_lookups e symbol (Suc (length tr)) evs = 0)
          \<and> (\<forall>r \<in> set (create_requests evs). o_quantity r = py_round (Q / of_int n) p)"
      using evs res tr2 v Some by (simp add: validate_quantity_def)
    show ?thesis
      apply (rule disjI2)
      apply (rule disjI2)
      apply (rule exI)+
      apply (rule F)
      done
  qed
qed

subsection \<open>TWAP: what is returned when a submission fails\<close>

lemma upper_BUY: "upper ''BUY'' = ''BUY''"
  by code_simp

lemmas run_simps =
  valid_BTCUSDT side_ok_BUY upper_BUY validate_quantity_def validate_price_def
  float_overflows_def format_quantity_def format_price_def get_symbol_info_def sim_env_def
  never_def from_clock_def at_clock_def
  call_create_order_def call_sleep_def call_symbol_ticker_def call_cancel_order_def upt_rec

lemmas round_simps = py_round_def round_half_even_def

lemma successes_map_Inr: "successes (map Inr os @ rs) = os @ successes rs"
  by (induction os) simp_all

lemma outcome_raised:
  "\<exists>r \<in> set (create_outcomes e k evs). isl r \<Longrightarrow> raised e k evs"
  by (induction e k evs rule: create_outcomes.induct) auto

text \<open>
  Claim C5. The outcomes of the order submissions of a TWAP call are read off its trace.
  When the first \<open>k \<ge> 1\<close> submissions succeeded with the responses \<open>os\<close> and the next one
  raised, the call returns exactly the list \<open>os\<close>, not \<^verbatim>\<open>None\<close>.
\<close>

theorem twap_partial_result:
  assumes run: "place_twap_order e symbol side Q d n ot tr = (res, tr')"
    and out: "create_outcomes e (length tr) (drop (length tr) tr') = map Inr os @ [Inl ex]"
    and ne: "os \<noteq> []"
  shows "res = Inr (Some os)"
  using place_twap_order_cases[OF run]
proof (elim disjE exE conjE)
  assume "tr' = tr"
  with out show ?thesis by simp
next
  assume "tr' = tr"
  with out show ?thesis by simp
next
  assume "tr' = tr @ [FuturesExchangeInfo]"
  with out show ?thesis by simp
next
  fix p and x :: "exn option" and os' evs
  assume tr': "tr' = tr @ FuturesExchangeInfo # evs"
    and res: "res = Inr (if x = None \<or> os' \<noteq> [] then Some os' else None)"
    and os': "os' = successes (create_outcomes e (Suc (length tr)) evs)"
  from out tr' have "create_outcomes e (Suc (length tr)) evs = map Inr os @ [Inl ex]"
    by simp
  with os' have "os' = os" by (simp add: successes_map_Inr)
  with res ne show ?thesis by simp
qed

theorem twap_partial_result_witness:
  "place_twap_order (sim_env (from_clock 5) never never) ''BTCUSDT'' ''BUY'' 3 10 3 ''MARKET'' []
     = (Inr (Some [\<lparr>orderId = Some 1, payload = ''BUY''\<rparr>, \<lparr>orderId = Some 3, payload = ''BUY''\<rparr>]),
        [FuturesExchangeInfo,
         FuturesCreateOrder \<lparr>o_symbol = ''BTCUSDT'', o_side = ''BUY'', o_type = ''MARKET'',
           o_quantity = 1, o_price = None, o_stopPrice = None, o_timeInForce = None,
           o_reduceOnly = None\<rparr>,
         Sleep 200,
         FuturesCreateOrder \<lparr>o_symbol = ''BTCUSDT'', o_side = ''BUY'', o_type = ''MARKET'',
           o_quantity = 1, o_price = None, o_stopPrice = None, o_timeInForce = None,
           o_reduceOnly = None\<rparr>,
         Sleep 200,
         FuturesCreateOrder \<lparr>o_symbol = ''BTCUSDT'', o_side = ''BUY'', o_type = ''MARKET'',
           o_quantity = 1, o_price = None, o_stopPrice = None, o_timeInForce = None,
           o_reduceOnly = None\<rparr>])"
  (is "?run = (Inr (Some ?os), ?tr')")
proof -
  have run: "?run = (Inr (Some ?os), ?tr')"
    by (simp add: place_twap_order_def run_simps round_simps)
  have out: "create_outcomes (sim_env (from_clock 5) never never) (length ([]::trace))
       (drop (length ([]::trace)) ?tr') = map Inr ?os @ [Inl (BinanceAPIException (- 2019))]"
    by (simp add: sim_env_def from_clock_def)
  have ne: "?os \<noteq> []" by simp
  show ?thesis using twap_partial_result[OF run out ne] run by simp
qed

text \<open>
  Claim C8. When the very first order submission of a TWAP call raises, the call returns
  \<^verbatim>\<open>None\<close>, not an empty list: the same value that the call returns for a quantity that
  fails validation.
\<close>

theorem twap_total_failure_is_None:
  assumes run: "place_twap_order e symbol side Q d n ot tr = (res, tr')"
    and out: "create_outcomes e (length tr) (drop (length tr) tr') = [Inl ex]"
  shows "res = Inr None \<and> fst (place_twap_order e symbol side 0 d n ot tr) = Inr None"
proof -
  have inv: "fst (place_twap_order e symbol side 0 d n ot tr) = Inr None"
    by (simp add: place_twap_order_def validate_quantity_def)
  from place_twap_order_cases[OF run] have "res = Inr None"
  proof (elim disjE exE conjE)
    assume "tr' = tr"
    with out show ?thesis by simp
  next
    assume "tr' = tr"
    with out show ?thesis by simp
  next
    assume "tr' = tr @ [FuturesExchangeInfo]"
    with out show ?thesis by simp
  next
    fix p and x :: "exn option" and os' evs
    assume tr': "tr' = tr @ FuturesExchangeInfo # evs"
      and res: "res = Inr (if x = None \<or> os' \<noteq> [] then Some os' else None)"
      and os': "os' = successes (create_outcomes e (Suc (length tr)) evs)"
      and x: "(x = None) = (\<not> raised e (Suc (length tr)) evs)"
    from out tr' have o: "create_outcomes e (Suc (length tr)) evs = [Inl ex]"
      by simp
    with os' have "os' = []" by simp
    moreover from o have "raised e (Suc (length tr)) evs"
      by (intro outcome_raised) simp
    ultimately show ?thesis using res x by simp
  qed
  with inv show ?thesis by simp
qed

theorem twap_total_failure_is_None_witness:
  "place_twap_order (sim_env (from_clock 0) never never) ''BTCUSDT'' ''BUY'' 3 10 3 ''MARKET'' []
     = (Inr None,
        [FuturesExchangeInfo,
         FuturesCreateOrder \<lparr>o_symbol = ''BTCUSDT'', o_side = ''BUY'', o_type = ''MARKET'',
           o_quantity = 1, o_price = None, o_stopPrice = None, o_timeInForce = None,
           o_reduceOnly = None\<rparr>])
 \<and> fst (place_twap_order (sim_env (from_clock 0) never never) ''BTCUSDT'' ''BUY'' 0 10 3
          ''MARKET'' []) = Inr None"
  (is "?run = (Inr None, ?tr') \<and> ?inv")
proof -
  have run: "?run = (Inr None, ?tr')"
    by (simp add: place_twap_order_def run_simps round_simps)
  have out: "create_outcomes (sim_env (from_clock 0) never never) (length ([]::trace))
       (drop (length ([]::trace)) ?tr') = [Inl (BinanceAPIException (- 2019))]"
    by (simp add: sim_env_def from_clock_def)
  show ?thesis using twap_total_failure_is_None[OF run out] run by simp
qed

subsection \<open>TWAP: clips and their number\<close>












subsection \<open>Grid: which ladder points get an order\<close>







end
